theory Spec2Isabelle
  imports Complex_Main
begin

section \<open>Shares and share options (classes.py)\<close>

text \<open>
  The numbers of the program are Python floats. They are modelled as real numbers and
  rounding is left out. The range of doubles is written out in two places only: the
  conversion of an int to a float in \<open>calculate_annualized_volatility\<close>, and the
  underflow of \<open>norm.cdf\<close> in \<open>norm_cdf_double\<close>. Everything else that raises in the
  source is a branch of the model returning an error value.
\<close>

subsection \<open>Errors\<close>

text \<open>
  \<open>ZeroDivisionError\<close> and \<open>OverflowError\<close> are Python's own. The other three are all
  \<open>ValueError\<close> in Python and are told apart by what raises them: \<open>math.log\<close> or
  \<open>math.sqrt\<close> outside their domain, the \<open>raise\<close> of \<open>calculate_option_value\<close>, and
  \<open>datetime.strptime\<close>.
\<close>

datatype error =
  ZeroDivisionError | OverflowError | MathDomainError | InvalidOptionType | DateParseError

subsection \<open>Naive datetimes\<close>

record datetime =
  year :: int
  month :: int
  day :: int
  hour :: int
  minute :: int
  second :: int
  microsecond :: int

definition is_leap :: "int \<Rightarrow> bool" where
  "is_leap y = (y mod 4 = 0 \<and> (y mod 100 \<noteq> 0 \<or> y mod 400 = 0))"

definition days_before_year :: "int \<Rightarrow> int" where
  "days_before_year y = (y - 1) * 365 + (y - 1) div 4 - (y - 1) div 100 + (y - 1) div 400"

definition days_in_month :: "int \<Rightarrow> int \<Rightarrow> int" where
  "days_in_month y m =
     (if m = 2 \<and> is_leap y then 29
      else if m = 2 then 28
      else if m = 4 \<or> m = 6 \<or> m = 9 \<or> m = 11 then 30
      else 31)"

definition days_before_month :: "int \<Rightarrow> int \<Rightarrow> int" where
  "days_before_month y m =
     [- 1, 0, 31, 59, 90, 120, 151, 181, 212, 243, 273, 304, 334] ! nat m
       + (if m > 2 \<and> is_leap y then 1 else 0)"

definition toordinal :: "datetime \<Rightarrow> int" where
  "toordinal d = days_before_year (year d) + days_before_month (year d) (month d) + day d"

text \<open>
  \<open>(a - b).days\<close>: the difference of two naive datetimes is a timedelta of
  \<open>toordinal\<close> days, seconds and microseconds, normalised so that seconds and
  microseconds are not negative; its \<open>days\<close> is the floor of the difference in days.
\<close>

definition total_microseconds :: "datetime \<Rightarrow> int" where
  "total_microseconds d =
     ((toordinal d * 86400) + (second d + minute d * 60 + hour d * 3600)) * 1000000
       + microsecond d"

definition timedelta_days :: "datetime \<Rightarrow> datetime \<Rightarrow> int" where
  "timedelta_days a b = (total_microseconds a - total_microseconds b) div 86400000000"

subsection \<open>Parsing and formatting dates\<close>

text \<open>
  \<open>datetime.strptime(s, "%Y-%m-%d")\<close> is the standard library's. It compiles the format
  to the regular expression
  \<^verbatim>\<open>(?P<Y>\d\d\d\d)-(?P<m>1[0-2]|0[1-9]|[1-9])-(?P<d>3[0-1]|[1-2]\d|0[1-9]|[1-9]| [1-9])\<close>,
  matches it at the start of the string, refuses text left after the match, converts the
  three groups with \<open>int\<close> and builds the date, whose constructor checks the ranges.
  Every failure is a \<open>ValueError\<close>. A group is modelled by the list of its possible
  matches (matched text, rest of the string) in the order of its alternatives, and the
  match of the whole expression is the first combination that succeeds, as backtracking
  finds it.
\<close>

definition isdigit :: "char \<Rightarrow> bool" where
  "isdigit c = (c \<in> set ''0123456789'')"

definition digit_value :: "char \<Rightarrow> int" where
  "digit_value c = int (of_char c) - 48"

definition in_range :: "char \<Rightarrow> char \<Rightarrow> char \<Rightarrow> bool" where
  "in_range lo hi c = (isdigit c \<and> digit_value lo \<le> digit_value c \<and> digit_value c \<le> digit_value hi)"

fun re_Y :: "string \<Rightarrow> (string \<times> string) list" where
  "re_Y (a # b # c # d # rest) =
     (if isdigit a \<and> isdigit b \<and> isdigit c \<and> isdigit d then [([a, b, c, d], rest)] else [])"
| "re_Y _ = []"

fun two_chars :: "(char \<Rightarrow> bool) \<Rightarrow> (char \<Rightarrow> bool) \<Rightarrow> string \<Rightarrow> (string \<times> string) list" where
  "two_chars p q (a # b # rest) = (if p a \<and> q b then [([a, b], rest)] else [])"
| "two_chars p q _ = []"

fun one_char :: "(char \<Rightarrow> bool) \<Rightarrow> string \<Rightarrow> (string \<times> string) list" where
  "one_char p (a # rest) = (if p a then [([a], rest)] else [])"
| "one_char p [] = []"

definition re_m :: "string \<Rightarrow> (string \<times> string) list" where
  "re_m s = two_chars (\<lambda>c. c = CHR ''1'') (in_range CHR ''0'' CHR ''2'') s
          @ two_chars (\<lambda>c. c = CHR ''0'') (in_range CHR ''1'' CHR ''9'') s
          @ one_char (in_range CHR ''1'' CHR ''9'') s"

definition re_d :: "string \<Rightarrow> (string \<times> string) list" where
  "re_d s = two_chars (\<lambda>c. c = CHR ''3'') (in_range CHR ''0'' CHR ''1'') s
          @ two_chars (in_range CHR ''1'' CHR ''2'') isdigit s
          @ two_chars (\<lambda>c. c = CHR ''0'') (in_range CHR ''1'' CHR ''9'') s
          @ one_char (in_range CHR ''1'' CHR ''9'') s
          @ two_chars (\<lambda>c. c = CHR '' '') (in_range CHR ''1'' CHR ''9'') s"

definition re_dash :: "string \<Rightarrow> string list" where
  "re_dash s = (case s of [] \<Rightarrow> [] | c # rest \<Rightarrow> if c = CHR ''-'' then [rest] else [])"

text \<open>All matches of the expression in backtracking order; \<open>re.match\<close> returns the first.\<close>

definition regex_matches :: "string \<Rightarrow> (string \<times> string \<times> string \<times> string) list" where
  "regex_matches s =
     concat (map (\<lambda>(Y, r1). concat (map (\<lambda>r2. concat (map (\<lambda>(m, r3). concat (map (\<lambda>r4.
       map (\<lambda>(d, r5). (Y, m, d, r5)) (re_d r4)) (re_dash r3))) (re_m r2))) (re_dash r1))) (re_Y s))"

text \<open>\<open>int\<close> on the text of a group: white space around the digits is dropped.\<close>

definition py_int :: "string \<Rightarrow> int" where
  "py_int s = foldl (\<lambda>n c. 10 * n + digit_value c) 0 (filter (\<lambda>c. c \<noteq> CHR '' '') s)"

definition check_date_fields :: "int \<Rightarrow> int \<Rightarrow> int \<Rightarrow> bool" where
  "check_date_fields y m d =
     (1 \<le> y \<and> y \<le> 9999 \<and> 1 \<le> m \<and> m \<le> 12 \<and> 1 \<le> d \<and> d \<le> days_in_month y m)"

definition strptime :: "string \<Rightarrow> error + datetime" where
  "strptime data_string =
     (case regex_matches data_string of
        [] \<Rightarrow> Inl DateParseError
      | (Y, m, d, rest) # _ \<Rightarrow>
          if rest \<noteq> [] then Inl DateParseError
          else if \<not> check_date_fields (py_int Y) (py_int m) (py_int d) then Inl DateParseError
          else Inr \<lparr>year = py_int Y, month = py_int m, day = py_int d,
                    hour = 0, minute = 0, second = 0, microsecond = 0\<rparr>)"

text \<open>
  \<open>strftime('%Y-%m-%d')\<close> hands the format to the \<open>strftime\<close> of the C library, which
  writes the month and the day as two digits each, padded with a zero, and (glibc) the
  year as a decimal number without padding. \<open>format_year\<close> gives the decimal digits of a
  year from 1 to 9999, the years a datetime can have.
\<close>

definition digit_char :: "int \<Rightarrow> char" where
  "digit_char n = ''0123456789'' ! nat n"

definition format_year :: "int \<Rightarrow> string" where
  "format_year y =
     (if y < 10 then [digit_char y]
      else if y < 100 then [digit_char (y div 10), digit_char (y mod 10)]
      else if y < 1000
        then [digit_char (y div 100), digit_char (y div 10 mod 10), digit_char (y mod 10)]
      else [digit_char (y div 1000), digit_char (y div 100 mod 10),
            digit_char (y div 10 mod 10), digit_char (y mod 10)])"

definition strftime :: "datetime \<Rightarrow> string" where
  "strftime d =
     format_year (year d)
     @ ''-'' @ [digit_char (month d div 10 mod 10), digit_char (month d mod 10)]
     @ ''-'' @ [digit_char (day d div 10 mod 10), digit_char (day d mod 10)]"

subsection \<open>Date strings\<close>

text \<open>
  The strings of the specification, by their fields between the dashes (Python's
  \<open>s.split('-')\<close>). \<open>zero_padded_date\<close>: a valid calendar date written
  \<open>YYYY-MM-DD\<close> with four, two and two digits. \<open>accepted_date_text\<close>: a four-digit
  year, a month of one or two digits, and a day of one or two digits or of a space and a
  digit, that name a valid calendar date of the years 1 to 9999. \<open>date_of_text\<close>: the
  date they name, at midnight. \<open>join_dash\<close> puts the fields together again.
\<close>

fun split_dash :: "string \<Rightarrow> string list" where
  "split_dash [] = [[]]"
| "split_dash (c # cs) =
     (if c = CHR ''-'' then [] # split_dash cs
      else (case split_dash cs of [] \<Rightarrow> [[c]] | f # fs \<Rightarrow> (c # f) # fs))"

definition year_text :: "string \<Rightarrow> bool" where
  "year_text Y = (length Y = 4 \<and> list_all isdigit Y)"

definition month_text :: "string \<Rightarrow> bool" where
  "month_text m = ((length m = 1 \<or> length m = 2) \<and> list_all isdigit m
                   \<and> 1 \<le> py_int m \<and> py_int m \<le> 12)"

definition day_text :: "string \<Rightarrow> bool" where
  "day_text d = (((length d = 1 \<or> length d = 2) \<and> list_all isdigit d
                   \<or> length d = 2 \<and> hd d = CHR '' '' \<and> isdigit (d ! 1))
                 \<and> 1 \<le> py_int d \<and> py_int d \<le> 31)"

definition accepted_date_text :: "string \<Rightarrow> bool" where
  "accepted_date_text s =
     (case split_dash s of
        [Y, m, d] \<Rightarrow> year_text Y \<and> month_text m \<and> day_text d
                     \<and> check_date_fields (py_int Y) (py_int m) (py_int d)
      | _ \<Rightarrow> False)"

definition zero_padded_date :: "string \<Rightarrow> bool" where
  "zero_padded_date s =
     (case split_dash s of
        [Y, m, d] \<Rightarrow> length Y = 4 \<and> length m = 2 \<and> length d = 2
                     \<and> list_all isdigit Y \<and> list_all isdigit m \<and> list_all isdigit d
                     \<and> check_date_fields (py_int Y) (py_int m) (py_int d)
      | _ \<Rightarrow> False)"

definition date_of_text :: "string \<Rightarrow> datetime" where
  "date_of_text s =
     (case split_dash s of
        [Y, m, d] \<Rightarrow> \<lparr>year = py_int Y, month = py_int m, day = py_int d,
                       hour = 0, minute = 0, second = 0, microsecond = 0\<rparr>
      | _ \<Rightarrow> \<lparr>year = 1, month = 1, day = 1, hour = 0, minute = 0, second = 0, microsecond = 0\<rparr>)"

fun join_dash :: "string list \<Rightarrow> string" where
  "join_dash [] = []"
| "join_dash [x] = x"
| "join_dash (x # y # ys) = x @ CHR ''-'' # join_dash (y # ys)"

subsection \<open>Share\<close>

record Share =
  ticker :: string
  share_price :: real
  volatility :: real
  market_cap :: real
  dividend_yield :: real
  sector :: string

text \<open>
  \<open>trading_days ** 0.5\<close> on an int. The int is first converted to a float, which raises
  \<open>OverflowError\<close> for an int that rounds to \<open>2 ^ 1024\<close> or beyond, of either sign: the
  largest double is \<open>2 ^ 1024 - 2 ^ 971\<close>, and the ints from \<open>2 ^ 1024 - 2 ^ 970\<close> on round
  up. The power is then a float for a base that is not negative, and a complex number
  (the principal root) for a negative base. The result of
  \<open>calculate_annualized_volatility\<close> is therefore a float or a complex number.
\<close>

datatype pynum = PyFloat real | PyComplex complex

definition float_int_bound :: int where
  "float_int_bound = 2 ^ 1024 - 2 ^ 970"

definition calculate_annualized_volatility :: "'a Share_scheme \<Rightarrow> int \<Rightarrow> error + pynum" where
  "calculate_annualized_volatility self trading_days =
     (if float_int_bound \<le> \<bar>trading_days\<bar> then Inl OverflowError
      else if 0 \<le> trading_days
      then Inr (PyFloat (volatility self * sqrt (of_int trading_days)))
      else Inr (PyComplex (of_real (volatility self) * csqrt (of_int trading_days))))"

definition default_trading_days :: int where
  "default_trading_days = 252"

subsection \<open>ShareOption\<close>

record ShareOption = Share +
  expiry_date :: datetime

text \<open>
  \<open>Share.__repr__\<close>. The text of a float (\<open>str\<close> of a Python float) is a parameter.
\<close>

definition Share_repr :: "(real \<Rightarrow> string) \<Rightarrow> 'a Share_scheme \<Rightarrow> string" where
  "Share_repr float_str self =
     ''Share(ticker='' @ ticker self @ '', share_price='' @ float_str (share_price self)
     @ '', volatility='' @ float_str (volatility self)
     @ '', market_cap='' @ float_str (market_cap self)
     @ '', dividend_yield='' @ float_str (dividend_yield self)
     @ '', sector='' @ sector self @ '')''"

definition ShareOption_init ::
  "string \<Rightarrow> real \<Rightarrow> real \<Rightarrow> real \<Rightarrow> real \<Rightarrow> string \<Rightarrow> string \<Rightarrow> error + ShareOption" where
  "ShareOption_init tk price vol cap yld sec expiry =
     (case strptime expiry of
        Inl e \<Rightarrow> Inl e
      | Inr d \<Rightarrow> Inr \<lparr>ticker = tk, share_price = price, volatility = vol, market_cap = cap,
                      dividend_yield = yld, sector = sec, expiry_date = d\<rparr>)"

definition ShareOption_repr :: "(real \<Rightarrow> string) \<Rightarrow> ShareOption \<Rightarrow> string" where
  "ShareOption_repr float_str self =
     Share_repr float_str self @ '', expiry_date='' @ strftime (expiry_date self)"

definition calculate_risk_free_rate :: "ShareOption \<Rightarrow> real" where
  "calculate_risk_free_rate self = 3 / 100"

text \<open>
  \<open>calculate_option_value\<close>. The standard normal distribution function
  \<open>scipy.stats.norm.cdf\<close> and the instant read by \<open>datetime.now()\<close> are parameters.
  The checks are in the order in which the source evaluates: the quotient
  \<open>share_price / strike_price\<close>, its logarithm, the square root of the time to expiry,
  the division by \<open>volatility * sqrt(time_to_expiry)\<close>, and only then the option type.
\<close>

definition calculate_option_value ::
  "(real \<Rightarrow> real) \<Rightarrow> datetime \<Rightarrow> ShareOption \<Rightarrow> real \<Rightarrow> string \<Rightarrow> error + real" where
  "calculate_option_value norm_cdf now self strike_price option_type =
     (let time_to_expiry = real_of_int (timedelta_days (expiry_date self) now) / 365;
          risk_free_rate = calculate_risk_free_rate self
      in if strike_price = 0 then Inl ZeroDivisionError
         else if share_price self / strike_price \<le> 0 then Inl MathDomainError
         else if time_to_expiry < 0 then Inl MathDomainError
         else if volatility self * sqrt time_to_expiry = 0 then Inl ZeroDivisionError
         else
           let d1 = (ln (share_price self / strike_price)
                      + (risk_free_rate + 0.5 * (volatility self)\<^sup>2) * time_to_expiry)
                    / (volatility self * sqrt time_to_expiry);
               d2 = d1 - volatility self * sqrt time_to_expiry
           in if option_type = ''call''
              then Inr (share_price self * norm_cdf d1
                        - strike_price * exp (- risk_free_rate * time_to_expiry) * norm_cdf d2)
              else if option_type = ''put''
              then Inr (strike_price * exp (- risk_free_rate * time_to_expiry) * norm_cdf (- d2)
                        - share_price self * norm_cdf (- d1))
              else Inl InvalidOptionType)"

text \<open>The time to expiry in years that \<open>calculate_option_value\<close> computes.\<close>

definition time_to_expiry_years :: "datetime \<Rightarrow> ShareOption \<Rightarrow> real" where
  "time_to_expiry_years now self = real_of_int (timedelta_days (expiry_date self) now) / 365"

subsection \<open>The standard normal distribution function\<close>

text \<open>
  The distribution function that \<open>norm.cdf\<close> computes, as a power series:
  \<open>1 / 2 + (\<Sum>k. (- 1 / 2) ^ k * x ^ (2 * k + 1) / (fact k * (2 * k + 1))) / sqrt (2 * pi)\<close>.
  \<open>gauss_integral x\<close> is the integral of \<open>exp (- t\<^sup>2 / 2)\<close> from \<open>0\<close> to \<open>x\<close>.
\<close>

definition gauss_coeff :: "nat \<Rightarrow> real" where
  "gauss_coeff n =
     (if odd n then (- 1 / 2) ^ ((n - 1) div 2) / (fact ((n - 1) div 2) * real n) else 0)"

definition gauss_integral :: "real \<Rightarrow> real" where
  "gauss_integral x = (\<Sum>n. gauss_coeff n * x ^ n)"

definition std_normal_cdf :: "real \<Rightarrow> real" where
  "std_normal_cdf x = 1 / 2 + gauss_integral x / sqrt (2 * pi)"




text \<open>The \<open>d1\<close> of \<open>calculate_option_value\<close> as a function of its inputs.\<close>

definition bs_d1 :: "real \<Rightarrow> real \<Rightarrow> real \<Rightarrow> real \<Rightarrow> real \<Rightarrow> real" where
  "bs_d1 r sigma T K S = (ln (S / K) + (r + 0.5 * sigma\<^sup>2) * T) / (sigma * sqrt T)"

subsection \<open>Sample data\<close>

definition sample_share :: Share where
  "sample_share = \<lparr>ticker = ''ACME'', share_price = 150, volatility = 2 / 100,
     market_cap = 1000000, dividend_yield = 1 / 100, sector = ''Technology''\<rparr>"

definition sample_option :: ShareOption where
  "sample_option = \<lparr>ticker = ''ACME'', share_price = 150, volatility = 25 / 100,
     market_cap = 1000000, dividend_yield = 1 / 100, sector = ''Technology'',
     expiry_date = \<lparr>year = 2026, month = 1, day = 1,
                     hour = 0, minute = 0, second = 0, microsecond = 0\<rparr>\<rparr>"

text \<open>Half a year before the expiry of \<open>sample_option\<close>, and the noon before it.\<close>

definition sample_now :: datetime where
  "sample_now = \<lparr>year = 2025, month = 7, day = 3,
                  hour = 12, minute = 0, second = 0, microsecond = 0\<rparr>"

definition sample_eve :: datetime where
  "sample_eve = \<lparr>year = 2025, month = 12, day = 31,
                  hour = 12, minute = 0, second = 0, microsecond = 0\<rparr>"



section \<open>The standard normal distribution function is odd around one half, differentiable and positive\<close>

lemma gauss_term_odd:
  "gauss_coeff n * x ^ n =
     (if even n then 0 else ((- 1 / 2) ^ ((n - 1) div 2) / (fact ((n - 1) div 2) * real (2 * ((n - 1) div 2) + 1))) * x ^ (2 * ((n - 1) div 2) + 1))"
proof (cases "even n")
  case True
  then show ?thesis by (simp add: gauss_coeff_def)
next
  case False
  then have "2 * ((n - 1) div 2) + 1 = n" by presburger
  then show ?thesis using False by (simp add: gauss_coeff_def)
qed

lemma gauss_odd_summable:
  "summable (\<lambda>k. ((- 1 / 2) ^ k / (fact k * real (2 * k + 1))) * x ^ (2 * k + 1) :: real)"
proof (rule summable_comparison_test)
  have "summable (\<lambda>k. (x\<^sup>2 / 2) ^ k /\<^sub>R fact k)"
    by (rule summable_exp_generic)
  then have "summable (\<lambda>k. (x\<^sup>2 / 2) ^ k / fact k)"
    by (simp only: real_scaleR_def divide_inverse mult.commute)
  then show "summable (\<lambda>k. \<bar>x\<bar> * ((x\<^sup>2 / 2) ^ k / fact k))"
    by (rule summable_mult)
  show "\<exists>N. \<forall>k\<ge>N. norm ((- 1 / 2) ^ k / (fact k * real (2 * k + 1)) * x ^ (2 * k + 1)) \<le> \<bar>x\<bar> * ((x\<^sup>2 / 2) ^ k / fact k)"
  proof (intro exI allI impI)
    fix k :: nat
    have a: "norm ((- 1 / 2) ^ k / (fact k * real (2 * k + 1)) * x ^ (2 * k + 1))
          = (\<bar>x\<bar> * ((x\<^sup>2 / 2) ^ k / fact k)) / real (2 * k + 1)"
    proof -
      have h: "\<bar>x ^ (2 * k + 1)\<bar> = \<bar>x\<bar> * (x\<^sup>2) ^ k"
        by (simp add: power_mult abs_mult power_abs)
      have "norm ((- 1 / 2) ^ k / (fact k * real (2 * k + 1)) * x ^ (2 * k + 1))
          = (1 / 2) ^ k / (fact k * real (2 * k + 1)) * \<bar>x ^ (2 * k + 1)\<bar>"
        by (simp add: abs_mult power_abs abs_divide del: power_Suc)
      also have "\<dots> = (\<bar>x\<bar> * ((x\<^sup>2 / 2) ^ k / fact k)) / real (2 * k + 1)"
        unfolding h by (simp add: power_divide)
      finally show ?thesis .
    qed
    have "(\<bar>x\<bar> * ((x\<^sup>2 / 2) ^ k / fact k)) / real (2 * k + 1) \<le> \<bar>x\<bar> * ((x\<^sup>2 / 2) ^ k / fact k) / 1"
      by (rule divide_left_mono) (auto)
    then show "norm ((- 1 / 2) ^ k / (fact k * real (2 * k + 1)) * x ^ (2 * k + 1)) \<le> \<bar>x\<bar> * ((x\<^sup>2 / 2) ^ k / fact k)"
      unfolding a by simp
  qed
qed

lemma gauss_summable: "summable (\<lambda>n. gauss_coeff n * x ^ n)"
proof -
  have "(\<lambda>k. ((- 1 / 2) ^ k / (fact k * real (2 * k + 1))) * x ^ (2 * k + 1)) sums
        (\<Sum>k. ((- 1 / 2) ^ k / (fact k * real (2 * k + 1))) * x ^ (2 * k + 1))"
    using gauss_odd_summable by (rule summable_sums)
  from sums_if'[OF this] show ?thesis
    unfolding gauss_term_odd by (rule sums_summable)
qed




lemma gauss_integral_minus: "gauss_integral (- x) = - gauss_integral x"
proof -
  have "gauss_coeff n * (- x) ^ n = - (gauss_coeff n * x ^ n)" for n
    by (cases "even n") (simp_all add: gauss_coeff_def)
  then have "gauss_integral (- x) = (\<Sum>n. - (gauss_coeff n * x ^ n))"
    by (simp add: gauss_integral_def)
  also have "\<dots> = - gauss_integral x"
    unfolding gauss_integral_def by (rule suminf_minus) (rule gauss_summable)
  finally show ?thesis .
qed

lemma std_normal_cdf_symm: "std_normal_cdf (- x) = 1 - std_normal_cdf x"
  by (simp add: std_normal_cdf_def gauss_integral_minus)




















section \<open>The derivative of the value in the share price\<close>





section \<open>The strings that strptime accepts\<close>

subsection \<open>Digits\<close>

lemma isdigit_cases:
  "isdigit c \<Longrightarrow> c = CHR ''0'' \<or> c = CHR ''1'' \<or> c = CHR ''2'' \<or> c = CHR ''3'' \<or> c = CHR ''4''
     \<or> c = CHR ''5'' \<or> c = CHR ''6'' \<or> c = CHR ''7'' \<or> c = CHR ''8'' \<or> c = CHR ''9''"
  by (simp add: isdigit_def)

lemma digit_value_range: "isdigit c \<Longrightarrow> 0 \<le> digit_value c \<and> digit_value c \<le> 9"
  by (auto dest!: isdigit_cases simp add: digit_value_def)

lemma digit_char_value: "isdigit c \<Longrightarrow> digit_char (digit_value c) = c"
  by (auto dest!: isdigit_cases simp add: digit_value_def digit_char_def)

lemma isdigit_neq: "isdigit c \<Longrightarrow> c \<noteq> CHR ''-'' \<and> c \<noteq> CHR '' ''"
  by (auto simp add: isdigit_def)

lemma digit_value_eq:
  "isdigit c \<Longrightarrow> (c = CHR ''0'') = (digit_value c = 0)"
  "isdigit c \<Longrightarrow> (c = CHR ''1'') = (digit_value c = 1)"
  "isdigit c \<Longrightarrow> (c = CHR ''3'') = (digit_value c = 3)"
  by (auto dest!: isdigit_cases simp add: digit_value_def)

lemma digit_value_simps:
  "digit_value CHR ''0'' = 0" "digit_value CHR ''1'' = 1" "digit_value CHR ''2'' = 2"
  "digit_value CHR ''3'' = 3" "digit_value CHR ''9'' = 9"
  "isdigit CHR ''0''" "isdigit CHR ''1''" "isdigit CHR ''3''" "\<not> isdigit CHR '' ''" "\<not> isdigit CHR ''-''"
  by (simp_all add: digit_value_def isdigit_def)

lemma py_int_digits:
  "isdigit a \<Longrightarrow> py_int [a] = digit_value a"
  "isdigit a \<Longrightarrow> isdigit b \<Longrightarrow> py_int [a, b] = 10 * digit_value a + digit_value b"
  "isdigit b \<Longrightarrow> py_int [CHR '' '', b] = digit_value b"
  "isdigit a \<Longrightarrow> isdigit b \<Longrightarrow> isdigit c \<Longrightarrow> isdigit d \<Longrightarrow>
     py_int [a, b, c, d] = 1000 * digit_value a + 100 * digit_value b + 10 * digit_value c + digit_value d"
  by (simp_all add: py_int_def isdigit_neq)


subsection \<open>The groups of the expression\<close>

lemma two_chars_iff:
  "((t, r) \<in> set (two_chars p q s)) = (\<exists>a b. t = [a, b] \<and> s = a # b # r \<and> p a \<and> q b)"
  by (cases "(p, q, s)" rule: two_chars.cases) auto

lemma one_char_iff:
  "((t, r) \<in> set (one_char p s)) = (\<exists>a. t = [a] \<and> s = a # r \<and> p a)"
  by (cases "(p, s)" rule: one_char.cases) auto

lemma in_range_iff:
  "in_range CHR ''0'' CHR ''2'' c = (isdigit c \<and> digit_value c \<le> 2)"
  "in_range CHR ''1'' CHR ''9'' c = (isdigit c \<and> 1 \<le> digit_value c)"
  "in_range CHR ''0'' CHR ''1'' c = (isdigit c \<and> digit_value c \<le> 1)"
  "in_range CHR ''1'' CHR ''2'' c = (isdigit c \<and> 1 \<le> digit_value c \<and> digit_value c \<le> 2)"
  using digit_value_range [of c] by (auto simp add: in_range_def digit_value_simps)

lemma length_1_2:
  "(length t = 1 \<or> length t = 2) = ((\<exists>a. t = [a]) \<or> (\<exists>a b. t = [a, b]))"
  by (cases t; cases "tl t"; cases "tl (tl t)") auto

lemma month_arith:
  fixes x y :: int
  assumes "0 \<le> x" "x \<le> 9" "0 \<le> y" "y \<le> 9"
  shows "(1 \<le> 10 * x + y \<and> 10 * x + y \<le> 12) = (x = 1 \<and> y \<le> 2 \<or> x = 0 \<and> 1 \<le> y)"
  using assms by arith

lemma day_arith:
  fixes x y :: int
  assumes "0 \<le> x" "x \<le> 9" "0 \<le> y" "y \<le> 9"
  shows "(1 \<le> 10 * x + y \<and> 10 * x + y \<le> 31)
       = (x = 3 \<and> y \<le> 1 \<or> (1 \<le> x \<and> x \<le> 2) \<or> x = 0 \<and> 1 \<le> y)"
  using assms by arith

lemma month_text_two:
  "month_text [a, b] = (a = CHR ''1'' \<and> in_range CHR ''0'' CHR ''2'' b
                        \<or> a = CHR ''0'' \<and> in_range CHR ''1'' CHR ''9'' b)"
proof (cases "isdigit a \<and> isdigit b")
  case True
  then show ?thesis
    using month_arith [of "digit_value a" "digit_value b"] digit_value_range [of a]
      digit_value_range [of b]
    by (simp add: month_text_def py_int_digits in_range_iff digit_value_eq)
next
  case False
  then show ?thesis
    by (auto simp add: month_text_def in_range_iff digit_value_simps)
qed

lemma month_text_one: "month_text [a] = in_range CHR ''1'' CHR ''9'' a"
proof (cases "isdigit a")
  case True
  then show ?thesis
    using digit_value_range [of a]
    by (simp add: month_text_def py_int_digits in_range_iff)
next
  case False
  then show ?thesis
    by (simp add: month_text_def in_range_iff)
qed

lemma re_m_iff: "((t, r) \<in> set (re_m s)) = (s = t @ r \<and> month_text t)"
proof -
  have "month_text t \<Longrightarrow> (\<exists>a. t = [a]) \<or> (\<exists>a b. t = [a, b])"
    using length_1_2 [of t] by (simp add: month_text_def)
  then show ?thesis
    by (auto simp add: re_m_def two_chars_iff one_char_iff month_text_two month_text_one)
qed

lemma day_text_two:
  "day_text [a, b] = (a = CHR ''3'' \<and> in_range CHR ''0'' CHR ''1'' b
                      \<or> in_range CHR ''1'' CHR ''2'' a \<and> isdigit b
                      \<or> a = CHR ''0'' \<and> in_range CHR ''1'' CHR ''9'' b
                      \<or> a = CHR '' '' \<and> in_range CHR ''1'' CHR ''9'' b)"
proof (cases "isdigit a \<and> isdigit b")
  case True
  then show ?thesis
    using day_arith [of "digit_value a" "digit_value b"] digit_value_range [of a]
      digit_value_range [of b] isdigit_neq [of a]
    by (simp add: day_text_def py_int_digits in_range_iff digit_value_eq)
next
  case False
  show ?thesis
  proof (cases "a = CHR '' '' \<and> isdigit b")
    case True
    then show ?thesis
      using digit_value_range [of b]
      by (simp add: day_text_def py_int_digits in_range_iff digit_value_simps)
  next
    case False
    then show ?thesis
      using \<open>\<not> (isdigit a \<and> isdigit b)\<close>
      by (auto simp add: day_text_def in_range_iff digit_value_simps)
  qed
qed

lemma day_text_one: "day_text [a] = in_range CHR ''1'' CHR ''9'' a"
proof (cases "isdigit a")
  case True
  then show ?thesis
    using digit_value_range [of a]
    by (simp add: day_text_def py_int_digits in_range_iff)
next
  case False
  then show ?thesis
    by (simp add: day_text_def in_range_iff)
qed

lemma re_d_iff: "((t, r) \<in> set (re_d s)) = (s = t @ r \<and> day_text t)"
proof -
  have "day_text t \<Longrightarrow> (\<exists>a. t = [a]) \<or> (\<exists>a b. t = [a, b])"
    using length_1_2 [of t] by (auto simp add: day_text_def)
  then show ?thesis
    by (auto simp add: re_d_def two_chars_iff one_char_iff day_text_two day_text_one)
qed

lemma year_text_short: "length s < 4 \<Longrightarrow> \<not> (s = t @ r \<and> year_text t)"
  by (auto simp add: year_text_def)

lemma re_Y_short: "length s < 4 \<Longrightarrow> re_Y s = []"
  by (cases s rule: re_Y.cases) simp_all

lemma re_Y_iff: "((t, r) \<in> set (re_Y s)) = (s = t @ r \<and> year_text t)"
proof (cases "length s < 4")
  case True
  then show ?thesis
    using year_text_short [of s t r] by (simp add: re_Y_short)
next
  case False
  then obtain a b c d rest where s: "s = a # b # c # d # rest"
    by (cases s rule: re_Y.cases) auto
  have "year_text t \<Longrightarrow> \<exists>a b c d. t = [a, b, c, d]"
    by (auto simp add: year_text_def eval_nat_numeral length_Suc_conv)
  then show ?thesis
    using s by (auto simp add: year_text_def)
qed

lemma re_dash_iff: "(r \<in> set (re_dash s)) = (s = CHR ''-'' # r)"
  by (auto simp add: re_dash_def split: list.splits)

lemma regex_matches_D:
  assumes "(Y, m, d, r) \<in> set (regex_matches s)"
  shows "s = Y @ CHR ''-'' # m @ CHR ''-'' # d @ r \<and> year_text Y \<and> month_text m \<and> day_text d"
  using assms by (auto simp add: regex_matches_def re_Y_iff re_dash_iff re_m_iff re_d_iff)

lemma re_Y_head: "year_text Y \<Longrightarrow> re_Y (Y @ r) = [(Y, r)]"
  by (auto simp add: year_text_def eval_nat_numeral length_Suc_conv)

lemma re_m_head:
  assumes "month_text m"
  shows "\<exists>tl. re_m (m @ CHR ''-'' # r) = (m, CHR ''-'' # r) # tl"
proof -
  have "(\<exists>a. m = [a]) \<or> (\<exists>a b. m = [a, b])"
    using assms length_1_2 [of m] by (simp add: month_text_def)
  then show ?thesis
  proof (elim disjE exE)
    fix a assume "m = [a]"
    then show ?thesis
      using assms by (simp add: month_text_one re_m_def in_range_iff digit_value_simps)
  next
    fix a b assume "m = [a, b]"
    then show ?thesis
      using assms by (auto simp add: month_text_two re_m_def in_range_iff digit_value_simps)
  qed
qed

lemma re_d_head:
  assumes "day_text d"
  shows "\<exists>tl. re_d d = (d, []) # tl"
proof -
  have "(\<exists>a. d = [a]) \<or> (\<exists>a b. d = [a, b])"
    using assms length_1_2 [of d] by (auto simp add: day_text_def)
  then show ?thesis
  proof (elim disjE exE)
    fix a assume "d = [a]"
    then show ?thesis
      using assms by (simp add: day_text_one re_d_def)
  next
    fix a b assume "d = [a, b]"
    then show ?thesis
      using assms by (auto simp add: day_text_two re_d_def in_range_iff digit_value_simps digit_value_eq)
  qed
qed

lemma regex_matches_head:
  assumes "year_text Y" and "month_text m" and "day_text d"
  shows "\<exists>tl. regex_matches (Y @ CHR ''-'' # m @ CHR ''-'' # d) = (Y, m, d, []) # tl"
proof -
  obtain t1 where 1: "re_m (m @ CHR ''-'' # d) = (m, CHR ''-'' # d) # t1"
    using re_m_head [OF assms(2)] by blast
  obtain t2 where 2: "re_d d = (d, []) # t2"
    using re_d_head [OF assms(3)] by blast
  show ?thesis
    by (simp add: regex_matches_def re_Y_head [OF assms(1)] re_dash_def 1 2)
qed

subsection \<open>Splitting at the dashes\<close>

lemma split_dash_not_Nil: "split_dash s \<noteq> []"
  by (induction s) (auto split: list.splits)

lemma join_split_dash: "join_dash (split_dash s) = s"
proof (induction s)
  case Nil
  show ?case by simp
next
  case (Cons c cs)
  obtain f fs where f: "split_dash cs = f # fs"
    using split_dash_not_Nil [of cs] by (cases "split_dash cs") auto
  show ?case
    using Cons f by (cases fs) auto
qed

lemma split_dash_three: "split_dash s = [Y, m, d] \<Longrightarrow> s = Y @ CHR ''-'' # m @ CHR ''-'' # d"
  using join_split_dash [of s] by simp

lemma split_dash_no_dash: "CHR ''-'' \<notin> set d \<Longrightarrow> split_dash d = [d]"
  by (induction d) auto

lemma split_dash_append:
  "CHR ''-'' \<notin> set a \<Longrightarrow> split_dash (a @ CHR ''-'' # r) = a # split_dash r"
  by (induction a) auto

lemma digits_no_dash: "list_all isdigit t \<Longrightarrow> CHR ''-'' \<notin> set t"
  using isdigit_neq by (auto simp add: list_all_iff)

lemma day_text_no_dash: "day_text d \<Longrightarrow> CHR ''-'' \<notin> set d"
proof -
  assume a: "day_text d"
  then have "(\<exists>a. d = [a]) \<or> (\<exists>a b. d = [a, b])"
    using length_1_2 [of d] by (auto simp add: day_text_def)
  then show ?thesis
    using a isdigit_neq
    by (auto simp add: day_text_one day_text_two in_range_iff digit_value_simps)
qed

lemma split_dash_texts:
  assumes "year_text Y" and "month_text m" and "day_text d"
  shows "split_dash (Y @ CHR ''-'' # m @ CHR ''-'' # d) = [Y, m, d]"
proof -
  have "CHR ''-'' \<notin> set Y" "CHR ''-'' \<notin> set m" "CHR ''-'' \<notin> set d"
    using assms by (simp_all add: year_text_def month_text_def digits_no_dash day_text_no_dash)
  then show ?thesis
    by (simp add: split_dash_append split_dash_no_dash)
qed

subsection \<open>What strptime accepts\<close>

lemma accepted_date_textE:
  assumes "accepted_date_text s"
  obtains Y m d where "split_dash s = [Y, m, d]" and "year_text Y" and "month_text m"
    and "day_text d" and "check_date_fields (py_int Y) (py_int m) (py_int d)"
  using assms unfolding accepted_date_text_def
  by (auto split: list.splits)

lemma strptime_accepted:
  assumes "accepted_date_text s"
  shows "strptime s = Inr (date_of_text s)"
proof -
  obtain Y m d where f: "split_dash s = [Y, m, d]" and t: "year_text Y" "month_text m" "day_text d"
    and c: "check_date_fields (py_int Y) (py_int m) (py_int d)"
    using assms by (rule accepted_date_textE)
  have s: "s = Y @ CHR ''-'' # m @ CHR ''-'' # d"
    using f by (rule split_dash_three)
  obtain tl where "regex_matches s = (Y, m, d, []) # tl"
    unfolding s using regex_matches_head [OF t] by blast
  then show ?thesis
    using c f by (simp add: strptime_def date_of_text_def)
qed

lemma strptime_not_accepted:
  assumes "\<not> accepted_date_text s"
  shows "strptime s = Inl DateParseError"
proof (rule ccontr)
  assume n: "strptime s \<noteq> Inl DateParseError"
  then obtain Y m d tl where r: "regex_matches s = (Y, m, d, []) # tl"
    and c: "check_date_fields (py_int Y) (py_int m) (py_int d)"
    by (auto simp add: strptime_def split: list.splits if_splits)
  have "(Y, m, d, []) \<in> set (regex_matches s)"
    unfolding r by simp
  then have s: "s = Y @ CHR ''-'' # m @ CHR ''-'' # d" and t: "year_text Y" "month_text m" "day_text d"
    using regex_matches_D [of Y m d "[]" s] by simp_all
  have "split_dash s = [Y, m, d]"
    unfolding s using t by (rule split_dash_texts)
  then have "accepted_date_text s"
    using t c by (simp add: accepted_date_text_def)
  then show False using assms by simp
qed

lemma zero_padded_accepted:
  assumes "zero_padded_date s"
  shows "accepted_date_text s"
proof -
  obtain Y m d where f: "split_dash s = [Y, m, d]"
    and l: "length Y = 4" "length m = 2" "length d = 2"
    and g: "list_all isdigit Y" "list_all isdigit m" "list_all isdigit d"
    and c: "check_date_fields (py_int Y) (py_int m) (py_int d)"
    using assms unfolding zero_padded_date_def by (auto split: list.splits)
  have "days_in_month (py_int Y) (py_int m) \<le> 31"
    by (simp add: days_in_month_def)
  then show ?thesis
    using f l g c
    by (simp add: accepted_date_text_def year_text_def month_text_def day_text_def
        check_date_fields_def)
qed

subsection \<open>Formatting a parsed date\<close>

lemma div_mod_digit:
  fixes q r n :: int
  assumes "0 \<le> r" and "r < n"
  shows "(n * q + r) div n = q" and "(n * q + r) mod n = r"
proof -
  have n: "n \<noteq> 0" using assms by simp
  have "(r + q * n) div n = q + r div n"
    using n by (rule div_mult_self1)
  then show "(n * q + r) div n = q"
    using assms by (simp add: div_pos_pos_trivial add.commute mult.commute)
  have "(r + q * n) mod n = r mod n"
    by (rule mod_mult_self1)
  then show "(n * q + r) mod n = r"
    using assms by (simp add: mod_pos_pos_trivial add.commute mult.commute)
qed

lemma digit_split:
  fixes a b c d :: int
  assumes "0 \<le> a \<and> a \<le> 9" "0 \<le> b \<and> b \<le> 9" "0 \<le> c \<and> c \<le> 9" "0 \<le> d \<and> d \<le> 9"
  shows "(1000 * a + 100 * b + 10 * c + d) div 1000 = a"
    and "(1000 * a + 100 * b + 10 * c + d) div 100 mod 10 = b"
    and "(1000 * a + 100 * b + 10 * c + d) div 10 mod 10 = c"
    and "(1000 * a + 100 * b + 10 * c + d) mod 10 = d"
proof -
  have 1: "(1000 * a + 100 * b + 10 * c + d) div 1000 = a"
    using div_mod_digit(1) [of "100 * b + 10 * c + d" 1000 a] assms by (simp add: add.assoc)
  have 2: "(1000 * a + 100 * b + 10 * c + d) div 100 = 10 * a + b"
    using div_mod_digit(1) [of "10 * c + d" 100 "10 * a + b"] assms by (simp add: algebra_simps)
  have 3: "(1000 * a + 100 * b + 10 * c + d) div 10 = 100 * a + 10 * b + c"
    using div_mod_digit(1) [of d 10 "100 * a + 10 * b + c"] assms by (simp add: algebra_simps)
  show "(1000 * a + 100 * b + 10 * c + d) div 1000 = a"
    by (rule 1)
  show "(1000 * a + 100 * b + 10 * c + d) div 100 mod 10 = b"
    unfolding 2 using div_mod_digit(2) [of b 10 a] assms by simp
  show "(1000 * a + 100 * b + 10 * c + d) div 10 mod 10 = c"
    unfolding 3 using div_mod_digit(2) [of c 10 "10 * a + b"] assms by (simp add: algebra_simps)
  show "(1000 * a + 100 * b + 10 * c + d) mod 10 = d"
    using div_mod_digit(2) [of d 10 "100 * a + 10 * b + c"] assms by (simp add: algebra_simps)
qed

lemma digit_split2:
  fixes c d :: int
  assumes "0 \<le> c \<and> c \<le> 9" "0 \<le> d \<and> d \<le> 9"
  shows "(10 * c + d) div 10 mod 10 = c" and "(10 * c + d) mod 10 = d"
  using digit_split(3,4) [of 0 0 c d] assms by simp_all

lemma strftime_date_of_text:
  assumes "zero_padded_date s" and "1000 \<le> year (date_of_text s)"
  shows "strftime (date_of_text s) = s"
proof -
  obtain Y m d where f: "split_dash s = [Y, m, d]"
    and l: "length Y = 4" "length m = 2" "length d = 2"
    and g: "list_all isdigit Y" "list_all isdigit m" "list_all isdigit d"
    using assms(1) unfolding zero_padded_date_def by (auto split: list.splits)
  obtain y1 y2 y3 y4 where Y: "Y = [y1, y2, y3, y4]"
    using l(1) by (auto simp add: eval_nat_numeral length_Suc_conv)
  obtain m1 m2 where m: "m = [m1, m2]"
    using l(2) by (auto simp add: eval_nat_numeral length_Suc_conv)
  obtain d1 d2 where d: "d = [d1, d2]"
    using l(3) by (auto simp add: eval_nat_numeral length_Suc_conv)
  have i: "isdigit y1" "isdigit y2" "isdigit y3" "isdigit y4" "isdigit m1" "isdigit m2"
    "isdigit d1" "isdigit d2"
    using g by (simp_all add: Y m d)
  note r = i [THEN digit_value_range]
  have s: "s = Y @ CHR ''-'' # m @ CHR ''-'' # d"
    using f by (rule split_dash_three)
  have y: "py_int Y div 1000 = digit_value y1" "py_int Y div 100 mod 10 = digit_value y2"
    "py_int Y div 10 mod 10 = digit_value y3" "py_int Y mod 10 = digit_value y4"
    unfolding Y py_int_digits(4) [OF i(1-4)] by (rule digit_split [OF r(1-4)])+
  have mm: "py_int m div 10 mod 10 = digit_value m1" "py_int m mod 10 = digit_value m2"
    unfolding m py_int_digits(2) [OF i(5,6)] by (rule digit_split2 [OF r(5,6)])+
  have dd: "py_int d div 10 mod 10 = digit_value d1" "py_int d mod 10 = digit_value d2"
    unfolding d py_int_digits(2) [OF i(7,8)] by (rule digit_split2 [OF r(7,8)])+
  have k: "\<not> py_int Y < 10" "\<not> py_int Y < 100" "\<not> py_int Y < 1000"
    using assms(2) by (simp_all add: date_of_text_def f)
  show ?thesis
    unfolding strftime_def format_year_def date_of_text_def f
    by (simp add: k y mm dd digit_char_value i) (simp add: s Y m d)
qed

section \<open>Sample evaluations\<close>

lemma sample_time_to_expiry: "time_to_expiry_years sample_now sample_option = 181 / 365"
  by (simp add: time_to_expiry_years_def sample_now_def sample_option_def timedelta_days_def
      total_microseconds_def toordinal_def days_before_year_def days_before_month_def is_leap_def)

lemma sample_eve_time_to_expiry: "time_to_expiry_years sample_eve sample_option = 0"
  by (simp add: time_to_expiry_years_def sample_eve_def sample_option_def timedelta_days_def
      total_microseconds_def toordinal_def days_before_year_def days_before_month_def is_leap_def)

lemma sample_option_fields:
  "share_price sample_option = 150" "volatility sample_option = 25 / 100"
  by (simp_all add: sample_option_def)



section \<open>The value of a call and of a put\<close>

lemma calculate_option_value_call:
  assumes "0 < share_price self" and "0 < K" and "0 < volatility self"
    and "0 < time_to_expiry_years now self"
  shows "calculate_option_value Phi now self K ''call''
       = Inr (share_price self
                * Phi (bs_d1 (calculate_risk_free_rate self) (volatility self)
                         (time_to_expiry_years now self) K (share_price self))
              - K * exp (- calculate_risk_free_rate self * time_to_expiry_years now self)
                * Phi (bs_d1 (calculate_risk_free_rate self) (volatility self)
                         (time_to_expiry_years now self) K (share_price self)
                       - volatility self * sqrt (time_to_expiry_years now self)))"
proof -
  have g: "K \<noteq> 0" "\<not> share_price self / K \<le> 0" "\<not> time_to_expiry_years now self < 0"
    "volatility self * sqrt (time_to_expiry_years now self) \<noteq> 0"
    using assms by (simp_all add: not_le)
  show ?thesis
    using g unfolding time_to_expiry_years_def bs_d1_def
    by (simp add: calculate_option_value_def Let_def)
qed

lemma calculate_option_value_put:
  assumes "0 < share_price self" and "0 < K" and "0 < volatility self"
    and "0 < time_to_expiry_years now self"
  shows "calculate_option_value Phi now self K ''put''
       = Inr (K * exp (- calculate_risk_free_rate self * time_to_expiry_years now self)
                * Phi (- (bs_d1 (calculate_risk_free_rate self) (volatility self)
                         (time_to_expiry_years now self) K (share_price self)
                       - volatility self * sqrt (time_to_expiry_years now self)))
              - share_price self
                * Phi (- bs_d1 (calculate_risk_free_rate self) (volatility self)
                         (time_to_expiry_years now self) K (share_price self)))"
proof -
  have g: "K \<noteq> 0" "\<not> share_price self / K \<le> 0" "\<not> time_to_expiry_years now self < 0"
    "volatility self * sqrt (time_to_expiry_years now self) \<noteq> 0"
    using assms by (simp_all add: not_le)
  show ?thesis
    using g unfolding time_to_expiry_years_def bs_d1_def
    by (simp add: calculate_option_value_def Let_def)
qed

lemma time_to_expiry_share_price [simp]:
  "time_to_expiry_years now (self\<lparr>share_price := S\<rparr>) = time_to_expiry_years now self"
  by (simp add: time_to_expiry_years_def)

lemma risk_free_rate_share_price [simp]:
  "calculate_risk_free_rate (self\<lparr>share_price := S\<rparr>) = calculate_risk_free_rate self"
  by (simp add: calculate_risk_free_rate_def)


section \<open>Where the distribution function underflows\<close>







section \<open>The valuation formula\<close>

text \<open>
  C1: with share price, volatility, time to expiry and strike all positive, the value
  of a call is \<open>S * Phi d1 - K * exp (- r * T) * Phi d2\<close> and the value of a put is
  \<open>K * exp (- r * T) * Phi (- d2) - S * Phi (- d1)\<close>, where
  \<open>d1 = (ln (S / K) + (r + sigma\<^sup>2 / 2) * T) / (sigma * sqrt T)\<close>,
  \<open>d2 = d1 - sigma * sqrt T\<close> and \<open>r\<close> is the risk-free rate of the option.
\<close>

theorem calculate_option_value_formula:
  fixes S K T sigma r d1 d2 :: real
  assumes "S = share_price self" and "sigma = volatility self"
    and "T = time_to_expiry_years now self" and "r = calculate_risk_free_rate self"
    and "0 < S" and "0 < sigma" and "0 < T" and "0 < K"
    and "d1 = (ln (S / K) + (r + 0.5 * sigma\<^sup>2) * T) / (sigma * sqrt T)"
    and "d2 = d1 - sigma * sqrt T"
  shows "calculate_option_value Phi now self K ''call''
           = Inr (S * Phi d1 - K * exp (- r * T) * Phi d2)
       \<and> calculate_option_value Phi now self K ''put''
           = Inr (K * exp (- r * T) * Phi (- d2) - S * Phi (- d1))"
proof -
  have g: "K \<noteq> 0" "\<not> S / K \<le> 0" "\<not> T < 0" "sigma * sqrt T \<noteq> 0"
    using assms(5-8) by (simp_all add: not_le)
  show ?thesis
    using g unfolding assms(10) assms(9) assms(1-4) time_to_expiry_years_def
    by (simp add: calculate_option_value_def Let_def)
qed

theorem calculate_option_value_formula_witness:
  "calculate_option_value std_normal_cdf sample_now sample_option 155 ''call''
     = Inr (150 * std_normal_cdf
              ((ln (150 / 155) + (3 / 100 + 0.5 * (25 / 100)\<^sup>2) * (181 / 365))
                / (25 / 100 * sqrt (181 / 365)))
            - 155 * exp (- (3 / 100) * (181 / 365)) * std_normal_cdf
              ((ln (150 / 155) + (3 / 100 + 0.5 * (25 / 100)\<^sup>2) * (181 / 365))
                / (25 / 100 * sqrt (181 / 365)) - 25 / 100 * sqrt (181 / 365)))"
proof -
  have h: "(150::real) = share_price sample_option" "(25 / 100 :: real) = volatility sample_option"
    "(181 / 365 :: real) = time_to_expiry_years sample_now sample_option"
    "(3 / 100 :: real) = calculate_risk_free_rate sample_option"
    "(0::real) < 150" "(0::real) < 25 / 100" "(0::real) < 181 / 365" "(0::real) < 155"
    by (simp_all add: sample_option_fields sample_time_to_expiry calculate_risk_free_rate_def)
  show ?thesis
    using calculate_option_value_formula [OF h refl refl, of std_normal_cdf] by (rule conjunct1)
qed

text \<open>
  C2: put-call parity. For a distribution function with \<open>Phi (- x) = 1 - Phi x\<close>, as
  the standard normal one has, and share price, strike, volatility and time to expiry
  positive, the valuation returns a value for the call and for the put at the same
  instant, and the call value minus the put value is \<open>S - K * exp (- r * T)\<close>.
\<close>

theorem put_call_parity:
  assumes "\<forall>x. Phi (- x) = 1 - Phi x"
    and "0 < share_price self" and "0 < K" and "0 < volatility self"
    and "0 < time_to_expiry_years now self"
  shows "\<exists>c p. calculate_option_value Phi now self K ''call'' = Inr c
             \<and> calculate_option_value Phi now self K ''put'' = Inr p
             \<and> c - p = share_price self
                 - K * exp (- calculate_risk_free_rate self * time_to_expiry_years now self)"
proof -
  define d1 where "d1 = bs_d1 (calculate_risk_free_rate self) (volatility self)
                         (time_to_expiry_years now self) K (share_price self)"
  define d2 where "d2 = d1 - volatility self * sqrt (time_to_expiry_years now self)"
  define e where "e = K * exp (- calculate_risk_free_rate self * time_to_expiry_years now self)"
  have c: "calculate_option_value Phi now self K ''call''
             = Inr (share_price self * Phi d1 - e * Phi d2)"
    unfolding d1_def d2_def e_def by (rule calculate_option_value_call [OF assms(2-5)])
  have p: "calculate_option_value Phi now self K ''put''
             = Inr (e * Phi (- d2) - share_price self * Phi (- d1))"
    unfolding d1_def d2_def e_def by (rule calculate_option_value_put [OF assms(2-5)])
  have "(share_price self * Phi d1 - e * Phi d2) - (e * Phi (- d2) - share_price self * Phi (- d1))
      = share_price self - e"
  proof -
    have m: "Phi (- d1) = 1 - Phi d1" "Phi (- d2) = 1 - Phi d2"
      using assms(1) by simp_all
    show ?thesis unfolding m by (simp add: algebra_simps)
  qed
  then show ?thesis
    unfolding c p e_def by blast
qed

theorem put_call_parity_witness:
  "\<exists>c p. calculate_option_value std_normal_cdf sample_now sample_option 155 ''call'' = Inr c
        \<and> calculate_option_value std_normal_cdf sample_now sample_option 155 ''put'' = Inr p
        \<and> c - p = 150 - 155 * exp (- (3 / 100) * (181 / 365))"
proof -
  have h: "\<forall>x. std_normal_cdf (- x) = 1 - std_normal_cdf x"
    "0 < share_price sample_option" "(0::real) < 155" "0 < volatility sample_option"
    "0 < time_to_expiry_years sample_now sample_option"
    by (simp_all add: std_normal_cdf_symm sample_option_fields sample_time_to_expiry)
  show ?thesis
    using put_call_parity [OF h]
    by (simp add: sample_option_fields sample_time_to_expiry calculate_risk_free_rate_def)
qed




section \<open>The option type\<close>

text \<open>
  C5, as the code has it: with share price, strike, volatility and time to expiry
  positive, an option type that is neither \<open>call\<close> nor \<open>put\<close> makes the valuation fail
  with the invalid option type error, and no value is returned.
\<close>

theorem calculate_option_value_invalid_type:
  assumes "0 < share_price self" and "0 < K" and "0 < volatility self"
    and "0 < time_to_expiry_years now self"
    and "option_type \<noteq> ''call''" and "option_type \<noteq> ''put''"
  shows "calculate_option_value Phi now self K option_type = Inl InvalidOptionType"
proof -
  have g: "K \<noteq> 0" "\<not> share_price self / K \<le> 0" "\<not> time_to_expiry_years now self < 0"
    "volatility self * sqrt (time_to_expiry_years now self) \<noteq> 0"
    using assms(1-4) by (simp_all add: not_le)
  show ?thesis
    using g assms(5,6) unfolding time_to_expiry_years_def
    by (simp add: calculate_option_value_def Let_def)
qed

theorem calculate_option_value_invalid_type_witness:
  "calculate_option_value std_normal_cdf sample_now sample_option 100 ''swap''
     = Inl InvalidOptionType"
proof -
  have h: "0 < share_price sample_option" "(0::real) < 100" "0 < volatility sample_option"
    "0 < time_to_expiry_years sample_now sample_option" "''swap'' \<noteq> ''call''" "''swap'' \<noteq> ''put''"
    by (simp_all add: sample_option_fields sample_time_to_expiry)
  show ?thesis
    using calculate_option_value_invalid_type [OF h, of std_normal_cdf] .
qed

text \<open>
  The claim as stated, for every option and strike, fails: with strike \<open>0\<close> the quotient
  \<open>share_price / strike_price\<close> raises before the option type is looked at.
\<close>

theorem calculate_option_value_zero_strike_swap:
  "calculate_option_value std_normal_cdf sample_now sample_option 0 ''swap''
     = Inl ZeroDivisionError"
  by (simp add: calculate_option_value_def)

text \<open>
  C9, as the code has it: the comparison of the option type is by equality of strings.
  A value is returned only for exactly \<open>call\<close> or \<open>put\<close>; and with share price,
  strike, volatility and time to expiry positive, the valuation fails with the invalid
  option type error exactly for every other string, \<open>Call\<close> and \<open>PUT\<close> among them.
\<close>

theorem option_type_case_sensitive:
  "((\<exists>v. calculate_option_value Phi now self K option_type = Inr v)
      \<longrightarrow> option_type = ''call'' \<or> option_type = ''put'')
   \<and> (0 < share_price self \<and> 0 < K \<and> 0 < volatility self
        \<and> 0 < time_to_expiry_years now self
      \<longrightarrow> (calculate_option_value Phi now self K option_type = Inl InvalidOptionType)
          = (option_type \<noteq> ''call'' \<and> option_type \<noteq> ''put''))"
proof (intro conjI impI)
  assume "\<exists>v. calculate_option_value Phi now self K option_type = Inr v"
  then show "option_type = ''call'' \<or> option_type = ''put''"
    by (auto simp add: calculate_option_value_def Let_def split: if_splits)
next
  assume a: "0 < share_price self \<and> 0 < K \<and> 0 < volatility self
        \<and> 0 < time_to_expiry_years now self"
  then have g: "K \<noteq> 0" "\<not> share_price self / K \<le> 0" "\<not> time_to_expiry_years now self < 0"
    "volatility self * sqrt (time_to_expiry_years now self) \<noteq> 0"
    by (simp_all add: not_le)
  show "(calculate_option_value Phi now self K option_type = Inl InvalidOptionType)
          = (option_type \<noteq> ''call'' \<and> option_type \<noteq> ''put'')"
    using g unfolding time_to_expiry_years_def
    by (simp add: calculate_option_value_def Let_def)
qed

theorem option_type_case_sensitive_witness:
  "calculate_option_value std_normal_cdf sample_now sample_option 155 ''Call''
     = Inl InvalidOptionType
   \<and> calculate_option_value std_normal_cdf sample_now sample_option 155 ''PUT''
     = Inl InvalidOptionType"
proof -
  have h: "0 < share_price sample_option \<and> (0::real) < 155 \<and> 0 < volatility sample_option
    \<and> 0 < time_to_expiry_years sample_now sample_option"
    by (simp add: sample_option_fields sample_time_to_expiry)
  show ?thesis
    using option_type_case_sensitive [of std_normal_cdf sample_now sample_option 155 "''Call''"]
      option_type_case_sensitive [of std_normal_cdf sample_now sample_option 155 "''PUT''"] h
    by simp
qed

text \<open>
  The claim as stated fails on an option that expires within a day: the time to expiry
  is \<open>0\<close>, the divisor \<open>volatility * sqrt(time_to_expiry)\<close> is \<open>0\<close>, and \<open>Call\<close> ends
  in a division by zero instead of the invalid option type error.
\<close>

theorem option_type_Call_on_expiring_option:
  "calculate_option_value std_normal_cdf sample_eve sample_option 155 ''Call''
     = Inl ZeroDivisionError"
  using sample_eve_time_to_expiry
  by (simp add: calculate_option_value_def time_to_expiry_years_def sample_option_fields)

section \<open>The risk-free rate and the annualized volatility\<close>

text \<open>
  C8: \<open>calculate_risk_free_rate\<close> returns the rate 0.03 for every option, the same on
  every call; it has no input besides the option and no failure.
\<close>

theorem calculate_risk_free_rate_constant:
  "calculate_risk_free_rate self = 0.03
   \<and> calculate_risk_free_rate self = calculate_risk_free_rate other"
  by (simp add: calculate_risk_free_rate_def)

text \<open>
  C7, as the code has it: for every number of trading days that is not negative and
  below \<open>2 ^ 1024 - 2 ^ 970\<close>, so that it converts to a float, the annualized volatility
  is the real number \<open>volatility * sqrt trading_days\<close>; from that bound on, of either
  sign, the call raises \<open>OverflowError\<close>; the result depends on the volatility of the
  share and on the parameter only; and with volatility 0.02 and the default of 252
  trading days it is \<open>0.02 * sqrt 252\<close>, within 0.001 of 0.3175.
\<close>

theorem calculate_annualized_volatility_nonneg:
  "(0 \<le> trading_days \<and> trading_days < 2 ^ 1024 - 2 ^ 970 \<longrightarrow>
      calculate_annualized_volatility self trading_days
        = Inr (PyFloat (volatility self * sqrt (of_int trading_days))))
   \<and> (2 ^ 1024 - 2 ^ 970 \<le> \<bar>trading_days\<bar> \<longrightarrow>
      calculate_annualized_volatility self trading_days = Inl OverflowError)
   \<and> (volatility self = volatility other \<longrightarrow>
      calculate_annualized_volatility self trading_days
        = calculate_annualized_volatility other trading_days)
   \<and> calculate_annualized_volatility sample_share default_trading_days
        = Inr (PyFloat (0.02 * sqrt 252))
   \<and> \<bar>0.02 * sqrt 252 - 0.3175\<bar> < (0.001 :: real)"
proof -
  have lo: "(15.85 :: real) < sqrt 252"
    by (rule real_less_rsqrt) (simp add: power2_eq_square)
  have hi: "sqrt 252 < (15.9 :: real)"
    by (rule real_less_lsqrt) (simp_all add: power2_eq_square)
  have a: "0.02 * sqrt 252 - 0.3175 < (0.001 :: real)"
    using hi by simp
  have b: "- (0.02 * sqrt 252 - 0.3175) < (0.001 :: real)"
    using lo by simp
  have c: "\<bar>0.02 * sqrt 252 - 0.3175\<bar> < (0.001 :: real)"
    unfolding abs_less_iff by (rule conjI [OF a b])
  have d: "\<not> float_int_bound \<le> \<bar>default_trading_days\<bar>"
    by (simp add: float_int_bound_def default_trading_days_def)
  have e: "calculate_annualized_volatility sample_share default_trading_days
        = Inr (PyFloat (0.02 * sqrt 252))"
    using d by (simp add: calculate_annualized_volatility_def)
      (simp add: sample_share_def default_trading_days_def)
  show ?thesis
    using c e by (auto simp add: calculate_annualized_volatility_def float_int_bound_def)
qed

theorem calculate_annualized_volatility_nonneg_witness:
  "calculate_annualized_volatility sample_share 4 = Inr (PyFloat (0.04))
   \<and> calculate_annualized_volatility sample_share (2 ^ 1024) = Inl OverflowError"
proof -
  have r: "(0::int) \<le> 4 \<and> (4::int) < 2 ^ 1024 - 2 ^ 970"
    by simp
  have o: "(2::int) ^ 1024 - 2 ^ 970 \<le> \<bar>2 ^ 1024\<bar>"
    by simp
  have "calculate_annualized_volatility sample_share 4
          = Inr (PyFloat (volatility sample_share * sqrt (of_int 4)))"
    using calculate_annualized_volatility_nonneg [of 4 sample_share sample_share] r by blast
  moreover have "sqrt (4::real) = 2"
    using real_sqrt_abs [of 2] by simp
  moreover have "calculate_annualized_volatility sample_share (2 ^ 1024) = Inl OverflowError"
    using calculate_annualized_volatility_nonneg [of "2 ^ 1024" sample_share sample_share] o
    by blast
  ultimately show ?thesis by (simp add: sample_share_def)
qed

text \<open>
  The claim as stated, for every number of trading days, fails on a negative one:
  \<open>(-4) ** 0.5\<close> is the complex number \<open>2j\<close>, and the result is complex, not the real
  \<open>volatility * sqrt trading_days\<close>.
\<close>

theorem calculate_annualized_volatility_negative_days:
  "calculate_annualized_volatility sample_share (- 4) = Inr (PyComplex (Complex 0 0.04))"
proof -
  have "sqrt (4::real) = 2"
    using real_sqrt_abs [of 2] by simp
  then have "csqrt (- 4) = Complex 0 2"
    using csqrt_of_real_nonpos [of "- 4"] by (simp add: complex_eq_iff)
  then show ?thesis
    by (simp add: calculate_annualized_volatility_def float_int_bound_def sample_share_def
        complex_eq_iff)
qed

section \<open>The expiry date\<close>

text \<open>
  C6, as the code has it: constructing a share option succeeds exactly for the expiry
  strings that \<open>accepted_date_text\<close> describes, storing the date they name at midnight, and
  fails with the date parse error for every other string, \<open>2025-13-01\<close> among them. Every
  valid zero-padded \<open>YYYY-MM-DD\<close> date is accepted.
\<close>

theorem ShareOption_init_expiry:
  "(accepted_date_text expiry \<longrightarrow>
      ShareOption_init tk price vol cap yld sec expiry
        = Inr \<lparr>ticker = tk, share_price = price, volatility = vol, market_cap = cap,
               dividend_yield = yld, sector = sec, expiry_date = date_of_text expiry\<rparr>)
   \<and> (\<not> accepted_date_text expiry \<longrightarrow>
      ShareOption_init tk price vol cap yld sec expiry = Inl DateParseError)
   \<and> (zero_padded_date expiry \<longrightarrow> accepted_date_text expiry)
   \<and> \<not> accepted_date_text ''2025-13-01''"
proof (intro conjI impI)
  assume "accepted_date_text expiry"
  then show "ShareOption_init tk price vol cap yld sec expiry
        = Inr \<lparr>ticker = tk, share_price = price, volatility = vol, market_cap = cap,
               dividend_yield = yld, sector = sec, expiry_date = date_of_text expiry\<rparr>"
    by (simp add: ShareOption_init_def strptime_accepted)
next
  assume "\<not> accepted_date_text expiry"
  then show "ShareOption_init tk price vol cap yld sec expiry = Inl DateParseError"
    by (simp add: ShareOption_init_def strptime_not_accepted)
next
  assume "zero_padded_date expiry"
  then show "accepted_date_text expiry" by (rule zero_padded_accepted)
next
  show "\<not> accepted_date_text ''2025-13-01''"
    by (simp add: accepted_date_text_def year_text_def month_text_def isdigit_def py_int_def
        digit_value_def)
qed

theorem ShareOption_init_expiry_witness:
  "ShareOption_init ''ACME'' 150 (25 / 100) 1000000 (1 / 100) ''Technology'' ''2026-01-01''
     = Inr sample_option
   \<and> ShareOption_init ''ACME'' 150 (25 / 100) 1000000 (1 / 100) ''Technology'' ''2025-13-01''
     = Inl DateParseError"
proof -
  have a: "accepted_date_text ''2026-01-01''"
    by (simp add: accepted_date_text_def year_text_def month_text_def day_text_def isdigit_def
        py_int_def digit_value_def check_date_fields_def days_in_month_def)
  have d: "date_of_text ''2026-01-01'' = expiry_date sample_option"
    by (simp add: date_of_text_def py_int_def digit_value_def sample_option_def)
  show ?thesis
    using ShareOption_init_expiry
        [of "''2026-01-01''" "''ACME''" 150 "25 / 100" 1000000 "1 / 100" "''Technology''"]
      ShareOption_init_expiry
        [of "''2025-13-01''" "''ACME''" 150 "25 / 100" 1000000 "1 / 100" "''Technology''"] a d
    by (simp add: sample_option_def)
qed

text \<open>
  The claim as stated fails on a string that is not zero-padded: \<open>2025-1-5\<close> is not a
  \<open>YYYY-MM-DD\<close> date, and the construction succeeds with the 5th of January 2025.
\<close>

theorem ShareOption_init_unpadded_expiry:
  "\<not> zero_padded_date ''2025-1-5''
   \<and> ShareOption_init ''ACME'' 150 (25 / 100) 1000000 (1 / 100) ''Technology'' ''2025-1-5''
     = Inr \<lparr>ticker = ''ACME'', share_price = 150, volatility = 25 / 100, market_cap = 1000000,
            dividend_yield = 1 / 100, sector = ''Technology'',
            expiry_date = \<lparr>year = 2025, month = 1, day = 5,
                            hour = 0, minute = 0, second = 0, microsecond = 0\<rparr>\<rparr>"
  by (simp add: zero_padded_date_def ShareOption_init_def strptime_def regex_matches_def
      re_m_def re_d_def re_dash_def isdigit_def in_range_def digit_value_def py_int_def
      check_date_fields_def days_in_month_def)

text \<open>
  C10, as the code has it: for every valid zero-padded \<open>YYYY-MM-DD\<close> string whose year
  is at least 1000 the construction succeeds, the stored date formats back to the same
  string, and the textual representation of the option is that of the share followed by
  \<open>, expiry_date=\<close> and the same string.
\<close>

theorem repr_reproduces_expiry:
  assumes "zero_padded_date expiry" and "1000 \<le> year (date_of_text expiry)"
  shows "\<exists>opt. ShareOption_init tk price vol cap yld sec expiry = Inr opt
             \<and> strftime (expiry_date opt) = expiry
             \<and> ShareOption_repr float_str opt
                 = Share_repr float_str opt @ '', expiry_date='' @ expiry"
proof -
  have "strptime expiry = Inr (date_of_text expiry)"
    using assms(1) by (intro strptime_accepted zero_padded_accepted)
  moreover have "strftime (date_of_text expiry) = expiry"
    using assms by (rule strftime_date_of_text)
  ultimately show ?thesis
    by (simp add: ShareOption_init_def ShareOption_repr_def)
qed

theorem repr_reproduces_expiry_witness:
  "\<exists>opt. ShareOption_init ''ACME'' 150 (25 / 100) 1000000 (1 / 100) ''Technology'' ''2024-02-29''
             = Inr opt
        \<and> strftime (expiry_date opt) = ''2024-02-29''
        \<and> ShareOption_repr (\<lambda>x. ''1.0'') opt
            = Share_repr (\<lambda>x. ''1.0'') opt @ '', expiry_date=2024-02-29''"
proof -
  have h: "zero_padded_date ''2024-02-29''" "1000 \<le> year (date_of_text ''2024-02-29'')"
    by (simp_all add: zero_padded_date_def date_of_text_def isdigit_def py_int_def
        digit_value_def check_date_fields_def days_in_month_def is_leap_def)
  show ?thesis
    using repr_reproduces_expiry [OF h] by simp
qed

text \<open>
  The claim as stated fails for a year below 1000: \<open>0999-01-05\<close> is a valid zero-padded
  date, the construction succeeds, and the stored date formats as \<open>999-01-05\<close>.
\<close>

theorem repr_drops_leading_zero_of_year:
  "zero_padded_date ''0999-01-05''
   \<and> ShareOption_init ''ACME'' 150 (25 / 100) 1000000 (1 / 100) ''Technology'' ''0999-01-05''
     = Inr \<lparr>ticker = ''ACME'', share_price = 150, volatility = 25 / 100, market_cap = 1000000,
            dividend_yield = 1 / 100, sector = ''Technology'',
            expiry_date = \<lparr>year = 999, month = 1, day = 5,
                            hour = 0, minute = 0, second = 0, microsecond = 0\<rparr>\<rparr>
   \<and> strftime \<lparr>year = 999, month = 1, day = 5,
                hour = 0, minute = 0, second = 0, microsecond = 0\<rparr> = ''999-01-05''"
  by (simp add: zero_padded_date_def ShareOption_init_def strptime_def regex_matches_def
      re_m_def re_d_def re_dash_def isdigit_def in_range_def digit_value_def py_int_def
      check_date_fields_def days_in_month_def strftime_def format_year_def digit_char_def)

end
